theory Spec2Isabelle
  imports Complex_Main "HOL-Library.Word" "HOL-Library.Log_Nat"
begin

section \<open>The Osmosis swap module (\<open>wallet-sdk/src/swap-modules/osmosis.ts\<close>)\<close>

text \<open>
  The module keeps, after its initializer promise has resolved, the list of pool entries
  \<open>poolsCacheEntries\<close> (the result of \<open>Object.entries(pools)\<close>, in the enumeration order
  of the parsed feed object), the token list \<open>coinsCache\<close>, the price table
  \<open>tokenPriceCache\<close> and the caller's \<open>nativeDenomsByTokenSymbol\<close>. Every public method
  awaits the initializer first; the functions below are the methods on a populated module,
  with the fields they read passed as arguments. A \<open>throw\<close> is the \<open>Inl\<close> of a sum.
\<close>

subsection \<open>Strings and errors\<close>

text \<open>
  \<open>String.prototype.toLowerCase\<close> on symbols, which are ASCII: the letters \<open>A\<close> to \<open>Z\<close>
  go to \<open>a\<close> to \<open>z\<close>, every other character stays.
\<close>

definition lowerChar :: "char \<Rightarrow> char" where
  "lowerChar c =
     (let n = (of_char c :: nat) in if 65 \<le> n \<and> n \<le> 90 then char_of (n + 32) else c)"

definition toLowerCase :: "string \<Rightarrow> string" where
  "toLowerCase s = map lowerChar s"

text \<open>A JavaScript \<open>Error\<close> with its \<open>message\<close>.\<close>

datatype error = Error string

text \<open>
  \<open>new Error(err)\<close> for an \<open>Error\<close> object \<open>err\<close>: the message of the new error is
  \<open>String(err)\<close>, the old message after \<open>Error: \<close>.
\<close>

fun rethrow :: "error \<Rightarrow> error" where
  "rethrow (Error m) = Error (''Error: '' @ m)"

fun message :: "error \<Rightarrow> string" where
  "message (Error m) = m"

subsection \<open>Numbers\<close>

text \<open>
  A JavaScript \<open>number\<close> is \<open>Number r\<close>, the double nearest to the rational \<open>r\<close> (what the
  literal \<open>r\<close> evaluates to), \<open>Infinity\<close> (of either sign) or \<open>NaN\<close>. A \<open>BigNumber\<close> of
  bignumber.js is \<open>Finite r\<close>, a decimal with the value \<open>r\<close>, \<open>BigInfinity\<close> (of either
  sign) or \<open>BigNaN\<close>. The sign of a zero and of an infinity is not kept: it changes
  neither a finite result nor whether a result is finite.
\<close>

datatype number = Number rat | Infinity | NaN

datatype BigNumber = Finite rat | BigInfinity | BigNaN

definition expt :: "rat \<Rightarrow> int \<Rightarrow> rat" where
  "expt b e = (if 0 \<le> e then b ^ nat e else 1 / b ^ nat (- e))"

text \<open>Rounding to an integer: ties away from zero, and ties to the even neighbour.\<close>

definition roundHalfUp :: "rat \<Rightarrow> int" where
  "roundHalfUp x = (if 0 \<le> x then \<lfloor>x + 1 / 2\<rfloor> else - \<lfloor>- x + 1 / 2\<rfloor>)"

definition nearestEven :: "int \<Rightarrow> rat \<Rightarrow> int" where
  "nearestEven f r =
     (if r < 1 / 2 then f else if 1 / 2 < r then f + 1 else if even f then f else f + 1)"

definition roundHalfEven :: "rat \<Rightarrow> int" where
  "roundHalfEven x = nearestEven \<lfloor>x\<rfloor> (x - of_int \<lfloor>x\<rfloor>)"

text \<open>
  For \<open>0 < x\<close>: the \<open>e\<close> with \<open>2 ^ e \<le> x < 2 ^ (e + 1)\<close>, and the \<open>n\<close> with
  \<open>10 ^ (n - 1) \<le> x < 10 ^ n\<close>.
\<close>

function declen :: "int \<Rightarrow> int" where
  "declen x = (if 0 < x then declen (x div 10) + 1 else 0)"
  by pat_completeness auto
termination
  by (relation "measure nat") auto

definition binaryExponent :: "rat \<Rightarrow> int" where
  "binaryExponent x = (if 1 \<le> x then bitlen \<lfloor>x\<rfloor> - 1 else - bitlen (\<lceil>1 / x\<rceil> - 1))"

definition decimalExponent :: "rat \<Rightarrow> int" where
  "decimalExponent x =
     (if 1 \<le> x then declen \<lfloor>x\<rfloor> else 1 - declen (\<lceil>1 / x\<rceil> - 1))"

text \<open>
  The IEEE 754 binary64 value nearest to a rational (ties to even): 53 significant bits,
  so the doubles around \<open>a\<close> are the multiples of \<open>ulpOf a\<close>; the least exponent is that
  of the subnormal numbers; \<open>Infinity\<close> from \<open>2 ^ 1024\<close> on. This is what reading a
  decimal as a \<open>number\<close> gives, and what every operation on \<open>number\<close>s does to its
  exact result.
\<close>

definition ulpOf :: "rat \<Rightarrow> rat" where
  "ulpOf a = expt 2 (max (binaryExponent a) (- 1022) - 52)"

definition onGrid :: "rat \<Rightarrow> rat \<Rightarrow> rat" where
  "onGrid a u = of_int (roundHalfEven (a / u)) * u"

definition signed :: "rat \<Rightarrow> rat \<Rightarrow> number" where
  "signed x d = (if 2 ^ 1024 \<le> d then Infinity else Number (sgn x * d))"

definition toDouble :: "rat \<Rightarrow> number" where
  "toDouble x = (if x = 0 then Number 0 else signed x (onGrid \<bar>x\<bar> (ulpOf \<bar>x\<bar>)))"

text \<open>
  \<open>String(d)\<close> for a double \<open>0 < d\<close>, as a value: the decimal of the fewest significant
  digits (at most 17) that reads back as \<open>d\<close>; of two such, the one nearer to \<open>d\<close>, and
  the even one of two equally near. With \<open>k\<close> digits the candidates are the two
  neighbours \<open>lo \<le> d < hi\<close> of \<open>d\<close> among the multiples of the unit \<open>u\<close> of the \<open>k\<close>-th
  digit. \<open>shortest 17 d\<close> tries 1, 2, ... digits.
\<close>

definition pick :: "rat \<Rightarrow> rat \<Rightarrow> rat \<Rightarrow> bool \<Rightarrow> bool \<Rightarrow> bool \<Rightarrow> rat option" where
  "pick d lo hi okLo okHi evenLo =
     (if okLo \<and> okHi then
        Some (if d - lo < hi - d then lo else if hi - d < d - lo then hi
              else if evenLo then lo else hi)
      else if okLo then Some lo
      else if okHi then Some hi
      else None)"

definition between :: "rat \<Rightarrow> int \<Rightarrow> rat \<Rightarrow> rat option" where
  "between d s u =
     pick d (of_int s * u) (of_int s * u + u)
       (toDouble (of_int s * u) = Number d) (toDouble (of_int s * u + u) = Number d) (even s)"

definition withUnit :: "rat \<Rightarrow> rat \<Rightarrow> rat option" where
  "withUnit d u = between d \<lfloor>d / u\<rfloor> u"

definition withDigits :: "rat \<Rightarrow> int \<Rightarrow> rat option" where
  "withDigits d k = withUnit d (expt 10 (decimalExponent d - k))"

fun shortest :: "nat \<Rightarrow> rat \<Rightarrow> rat" where
  "shortest 0 d = d"
| "shortest (Suc n) d =
     (case withDigits d (17 - int n) of Some v \<Rightarrow> v | None \<Rightarrow> shortest n d)"

text \<open>
  \<open>new BigNumber(n)\<close> for a \<open>number\<close> \<open>n\<close> reads the digits of \<open>String(n)\<close>;
  \<open>x.toNumber()\<close> reads the digits of \<open>x\<close> as a \<open>number\<close>.
\<close>

fun ofNumber :: "number \<Rightarrow> BigNumber" where
  "ofNumber (Number r) =
     (case toDouble r of
        Number d \<Rightarrow> Finite (if d = 0 then 0 else sgn d * shortest 17 \<bar>d\<bar>)
      | Infinity \<Rightarrow> BigInfinity
      | NaN \<Rightarrow> BigNaN)"
| "ofNumber Infinity = BigInfinity"
| "ofNumber NaN = BigNaN"

fun toNumber :: "BigNumber \<Rightarrow> number" where
  "toNumber (Finite x) = toDouble x"
| "toNumber BigInfinity = Infinity"
| "toNumber BigNaN = NaN"

text \<open>
  bignumber.js with its default configuration: \<open>DECIMAL_PLACES = 20\<close> and
  \<open>ROUNDING_MODE = ROUND_HALF_UP\<close>. \<open>div\<close> rounds the quotient to 20 decimal places,
  \<open>multipliedBy\<close> is exact, \<open>decimalPlaces(dp)\<close> rounds to \<open>dp\<close> decimal places.
\<close>

definition roundDP :: "nat \<Rightarrow> rat \<Rightarrow> rat" where
  "roundDP dp x = of_int (roundHalfUp (x * 10 ^ dp)) / 10 ^ dp"

fun div_BN :: "BigNumber \<Rightarrow> BigNumber \<Rightarrow> BigNumber" where
  "div_BN BigNaN y = BigNaN"
| "div_BN x BigNaN = BigNaN"
| "div_BN BigInfinity BigInfinity = BigNaN"
| "div_BN BigInfinity (Finite b) = BigInfinity"
| "div_BN (Finite a) BigInfinity = Finite 0"
| "div_BN (Finite a) (Finite b) =
     (if b = 0 then (if a = 0 then BigNaN else BigInfinity) else Finite (roundDP 20 (a / b)))"

fun multipliedBy :: "BigNumber \<Rightarrow> BigNumber \<Rightarrow> BigNumber" where
  "multipliedBy BigNaN y = BigNaN"
| "multipliedBy x BigNaN = BigNaN"
| "multipliedBy BigInfinity BigInfinity = BigInfinity"
| "multipliedBy BigInfinity (Finite b) = (if b = 0 then BigNaN else BigInfinity)"
| "multipliedBy (Finite a) BigInfinity = (if a = 0 then BigNaN else BigInfinity)"
| "multipliedBy (Finite a) (Finite b) = Finite (a * b)"


subsection \<open>Pools\<close>

record PoolAsset =
  symbol :: string
  denom :: string
  fees :: string
  liquidity :: number
  price :: number

type_synonym PoolEntry = "string \<times> (PoolAsset \<times> PoolAsset)"

type_synonym Long = "64 word"

record SwapRouteHop =
  poolId :: Long
  tokenOutDenom :: string

type_synonym SwapRoute = "SwapRouteHop list"

text \<open>
  \<open>getPoolPricesPairs\<close>: \<open>Array.prototype.find\<close> over the pool entries, with both symbols
  of the query and both symbols of each pool lower-cased; \<open>no-match\<close> is thrown when
  \<open>find\<close> returns \<open>undefined\<close>.
\<close>

definition getPoolPricesPairs :: "PoolEntry list \<Rightarrow> string \<Rightarrow> string \<Rightarrow> error + PoolEntry" where
  "getPoolPricesPairs poolsCacheEntries fromTokenSymbol targetTokenSymbol =
     (let from' = toLowerCase fromTokenSymbol;
          target' = toLowerCase targetTokenSymbol;
          poolMatch = List.find (\<lambda>(_, (assetA, assetB)).
              let assetA' = toLowerCase (symbol assetA);
                  assetB' = toLowerCase (symbol assetB)
              in (assetA' = from' \<and> assetB' = target') \<or> (assetA' = target' \<and> assetB' = from'))
            poolsCacheEntries
      in case poolMatch of
           None \<Rightarrow> Inl (Error ''no-match'')
         | Some p \<Rightarrow> Inr p)"

text \<open>
  \<open>getSwapRoute\<close>. \<open>Long.fromString\<close> belongs to the library long.js and is a parameter
  here: it may throw, and a throw inside the \<open>try\<close> block is caught like \<open>no-match\<close> is,
  since the \<open>catch\<close> does not look at the error. Everything thrown in the \<open>catch\<close> block
  leaves the method.
\<close>

definition getSwapRoute ::
  "(string \<Rightarrow> error + Long) \<Rightarrow> PoolEntry list \<Rightarrow> string \<Rightarrow> string \<Rightarrow> error + SwapRoute" where
  "getSwapRoute fromString poolsCacheEntries fromTokenSymbol targetTokenSymbol =
     (case
        (case getPoolPricesPairs poolsCacheEntries fromTokenSymbol targetTokenSymbol of
           Inl err \<Rightarrow> Inl err
         | Inr (poolId', (assetA, assetB)) \<Rightarrow>
             (let targetToken =
                    (if toLowerCase fromTokenSymbol = toLowerCase (symbol assetA)
                     then assetB else assetA)
              in case fromString poolId' of
                   Inl err \<Rightarrow> Inl err
                 | Inr l \<Rightarrow> Inr [\<lparr>poolId = l, tokenOutDenom = denom targetToken\<rparr>]))
      of
        Inr route \<Rightarrow> Inr route
      | Inl err \<Rightarrow>
          (case getPoolPricesPairs poolsCacheEntries fromTokenSymbol ''OSMO'' of
             Inl err \<Rightarrow> Inl err
           | Inr (poolIdA, (assetA, assetB)) \<Rightarrow>
          (case getPoolPricesPairs poolsCacheEntries ''OSMO'' targetTokenSymbol of
             Inl err \<Rightarrow> Inl err
           | Inr (poolIdB, (assetC, assetD)) \<Rightarrow>
             (let xToken =
                    (if toLowerCase fromTokenSymbol = toLowerCase (symbol assetA)
                     then assetB else assetA);
                  targetToken =
                    (if ''osmo'' = toLowerCase (symbol assetC) then assetD else assetC)
              in case fromString poolIdA of
                   Inl err \<Rightarrow> Inl err
                 | Inr la \<Rightarrow>
                (case fromString poolIdB of
                   Inl err \<Rightarrow> Inl err
                 | Inr lb \<Rightarrow>
                     Inr [\<lparr>poolId = la, tokenOutDenom = denom xToken\<rparr>,
                          \<lparr>poolId = lb, tokenOutDenom = denom targetToken\<rparr>])))))"

text \<open>
  \<open>getTokenToTokenPrice\<close>. The only throw in its \<open>try\<close> block is that of
  \<open>getPoolPricesPairs\<close>. The two recursive calls stand in the \<open>catch\<close> block, so what
  they throw leaves the method as it is; \<open>throw new Error(err)\<close> wraps the caught error.
  \<open>tokenAmount\<close> is a \<open>number\<close>: the second call gets \<open>valueA.toNumber()\<close>.
\<close>

function getTokenToTokenPrice ::
  "PoolEntry list \<Rightarrow> string \<Rightarrow> string \<Rightarrow> number \<Rightarrow> error + BigNumber" where
  "getTokenToTokenPrice poolsCacheEntries tokenASymbol tokenBSymbol tokenAmount =
     (case getPoolPricesPairs poolsCacheEntries tokenASymbol tokenBSymbol of
        Inr (_, (assetA, assetB)) \<Rightarrow>
          (let (fromToken, targetToken) =
                 (if toLowerCase tokenASymbol = toLowerCase (symbol assetA)
                  then (assetA, assetB) else (assetB, assetA));
               pricePerUnit = div_BN (ofNumber (price fromToken)) (ofNumber (price targetToken))
           in Inr (multipliedBy pricePerUnit (ofNumber tokenAmount)))
      | Inl err \<Rightarrow>
          (if message err = ''no-match'' \<and> tokenASymbol \<noteq> ''OSMO'' \<and> tokenBSymbol \<noteq> ''OSMO''
           then
             (case getTokenToTokenPrice poolsCacheEntries tokenASymbol ''OSMO'' tokenAmount of
                Inl e \<Rightarrow> Inl e
              | Inr valueA \<Rightarrow>
                  getTokenToTokenPrice poolsCacheEntries ''OSMO'' tokenBSymbol (toNumber valueA))
           else Inl (rethrow err)))"
  by pat_completeness auto
termination
  by (relation "measure (\<lambda>(ps, a, b, x). if a \<noteq> ''OSMO'' \<and> b \<noteq> ''OSMO'' then 1 else 0)") auto

declare getTokenToTokenPrice.simps [simp del]

subsection \<open>The price table\<close>



subsection \<open>The pool lookups a request makes\<close>

text \<open>
  The same two methods, returning next to their result the calls of
  \<open>getPoolPricesPairs\<close> they make, in order: each call is the pair of symbols it is
  made with.
\<close>

definition getSwapRouteT ::
  "(string \<Rightarrow> error + Long) \<Rightarrow> PoolEntry list \<Rightarrow> string \<Rightarrow> string
     \<Rightarrow> (string \<times> string) list \<times> (error + SwapRoute)" where
  "getSwapRouteT fromString poolsCacheEntries fromTokenSymbol targetTokenSymbol =
     (case
        (case getPoolPricesPairs poolsCacheEntries fromTokenSymbol targetTokenSymbol of
           Inl err \<Rightarrow> Inl err
         | Inr (poolId', (assetA, assetB)) \<Rightarrow>
             (let targetToken =
                    (if toLowerCase fromTokenSymbol = toLowerCase (symbol assetA)
                     then assetB else assetA)
              in case fromString poolId' of
                   Inl err \<Rightarrow> Inl err
                 | Inr l \<Rightarrow> Inr [\<lparr>poolId = l, tokenOutDenom = denom targetToken\<rparr>]))
      of
        Inr route \<Rightarrow> ([(fromTokenSymbol, targetTokenSymbol)], Inr route)
      | Inl err \<Rightarrow>
          (case getPoolPricesPairs poolsCacheEntries fromTokenSymbol ''OSMO'' of
             Inl err \<Rightarrow>
               ([(fromTokenSymbol, targetTokenSymbol), (fromTokenSymbol, ''OSMO'')], Inl err)
           | Inr (poolIdA, (assetA, assetB)) \<Rightarrow>
          (case getPoolPricesPairs poolsCacheEntries ''OSMO'' targetTokenSymbol of
             Inl err \<Rightarrow>
               ([(fromTokenSymbol, targetTokenSymbol), (fromTokenSymbol, ''OSMO''),
                 (''OSMO'', targetTokenSymbol)], Inl err)
           | Inr (poolIdB, (assetC, assetD)) \<Rightarrow>
               ([(fromTokenSymbol, targetTokenSymbol), (fromTokenSymbol, ''OSMO''),
                 (''OSMO'', targetTokenSymbol)],
                (let xToken =
                       (if toLowerCase fromTokenSymbol = toLowerCase (symbol assetA)
                        then assetB else assetA);
                     targetToken =
                       (if ''osmo'' = toLowerCase (symbol assetC) then assetD else assetC)
                 in case fromString poolIdA of
                      Inl err \<Rightarrow> Inl err
                    | Inr la \<Rightarrow>
                   (case fromString poolIdB of
                      Inl err \<Rightarrow> Inl err
                    | Inr lb \<Rightarrow>
                        Inr [\<lparr>poolId = la, tokenOutDenom = denom xToken\<rparr>,
                             \<lparr>poolId = lb, tokenOutDenom = denom targetToken\<rparr>]))))))"

function getTokenToTokenPriceT ::
  "PoolEntry list \<Rightarrow> string \<Rightarrow> string \<Rightarrow> number
     \<Rightarrow> (string \<times> string) list \<times> (error + BigNumber)" where
  "getTokenToTokenPriceT poolsCacheEntries tokenASymbol tokenBSymbol tokenAmount =
     (case getPoolPricesPairs poolsCacheEntries tokenASymbol tokenBSymbol of
        Inr (_, (assetA, assetB)) \<Rightarrow>
          ([(tokenASymbol, tokenBSymbol)],
           (let (fromToken, targetToken) =
                  (if toLowerCase tokenASymbol = toLowerCase (symbol assetA)
                   then (assetA, assetB) else (assetB, assetA));
                pricePerUnit = div_BN (ofNumber (price fromToken)) (ofNumber (price targetToken))
            in Inr (multipliedBy pricePerUnit (ofNumber tokenAmount))))
      | Inl err \<Rightarrow>
          (if message err = ''no-match'' \<and> tokenASymbol \<noteq> ''OSMO'' \<and> tokenBSymbol \<noteq> ''OSMO''
           then
             (case getTokenToTokenPriceT poolsCacheEntries tokenASymbol ''OSMO'' tokenAmount of
                (lookupsA, Inl e) \<Rightarrow> ((tokenASymbol, tokenBSymbol) # lookupsA, Inl e)
              | (lookupsA, Inr valueA) \<Rightarrow>
                  (case getTokenToTokenPriceT poolsCacheEntries ''OSMO'' tokenBSymbol
                          (toNumber valueA) of
                     (lookupsB, valueB) \<Rightarrow>
                       ((tokenASymbol, tokenBSymbol) # lookupsA @ lookupsB, valueB)))
           else ([(tokenASymbol, tokenBSymbol)], Inl (rethrow err))))"
  by pat_completeness auto
termination
  by (relation "measure (\<lambda>(ps, a, b, x). if a \<noteq> ''OSMO'' \<and> b \<noteq> ''OSMO'' then 1 else 0)") auto

declare getTokenToTokenPriceT.simps [simp del]

subsection \<open>The swap message\<close>



record Swap =
  fromTokenSymbol :: string
  targetTokenSymbol :: string
  fromTokenAmount :: BigNumber
  targetTokenAmount :: BigNumber
  slippage :: number









subsection \<open>Notions the properties are stated with\<close>

text \<open>
  A pool entry matches a pair of symbols when its two asset symbols are the two symbols
  of the pair, in either order, letter case apart.
\<close>

definition pairMatches :: "string \<Rightarrow> string \<Rightarrow> PoolEntry \<Rightarrow> bool" where
  "pairMatches a b p =
     ((toLowerCase (symbol (fst (snd p))) = toLowerCase a \<and>
       toLowerCase (symbol (snd (snd p))) = toLowerCase b) \<or>
      (toLowerCase (symbol (fst (snd p))) = toLowerCase b \<and>
       toLowerCase (symbol (snd (snd p))) = toLowerCase a))"

text \<open>The two assets of a pool entry, and the symbols and prices of all entries in order.\<close>

definition assetsOf :: "PoolEntry \<Rightarrow> PoolAsset list" where
  "assetsOf p = [fst (snd p), snd (snd p)]"


text \<open>Two pool entries that differ at most in the \<open>fees\<close> of their assets.\<close>

definition sameButFees :: "PoolEntry \<Rightarrow> PoolEntry \<Rightarrow> bool" where
  "sameButFees p q =
     (fst p = fst q \<and>
      (fst (snd p))\<lparr>fees := []\<rparr> = (fst (snd q))\<lparr>fees := []\<rparr> \<and>
      (snd (snd p))\<lparr>fees := []\<rparr> = (snd (snd q))\<lparr>fees := []\<rparr>)"

text \<open>
  The quote as the specification words it, on decimals from end to end. Direct: find the
  pool, orient its sides, and multiply the amount by the price of the \<open>from\<close> side over
  the price of the \<open>to\<close> side. Bridged, when there is no direct pool and neither symbol
  is the bridge asset: quote \<open>from\<close> to the bridge, then the bridge to \<open>to\<close> with the
  first result as the new amount. \<open>None\<close> is \<open>NoRouteFound\<close>.
\<close>

definition directQuote :: "PoolEntry list \<Rightarrow> string \<Rightarrow> string \<Rightarrow> BigNumber \<Rightarrow> BigNumber option" where
  "directQuote ps a b amount =
     (case getPoolPricesPairs ps a b of
        Inl _ \<Rightarrow> None
      | Inr (_, (x, y)) \<Rightarrow>
          Some (multipliedBy
                  (div_BN
                     (ofNumber (price (if toLowerCase a = toLowerCase (symbol x) then x else y)))
                     (ofNumber (price (if toLowerCase a = toLowerCase (symbol x) then y else x))))
                  amount))"

definition quoteSpec :: "PoolEntry list \<Rightarrow> string \<Rightarrow> string \<Rightarrow> BigNumber \<Rightarrow> BigNumber option" where
  "quoteSpec ps a b amount =
     (case directQuote ps a b amount of
        Some v \<Rightarrow> Some v
      | None \<Rightarrow>
          if a = ''OSMO'' \<or> b = ''OSMO'' then None
          else (case directQuote ps a ''OSMO'' amount of
                  None \<Rightarrow> None
                | Some v \<Rightarrow> directQuote ps ''OSMO'' b v))"

text \<open>A reader of pool ids that are decimal numerals, to run \<open>getSwapRoute\<close> with.\<close>

definition isDigit :: "char \<Rightarrow> bool" where
  "isDigit c = (48 \<le> (of_char c :: nat) \<and> (of_char c :: nat) \<le> 57)"

definition decimalLong :: "string \<Rightarrow> error + Long" where
  "decimalLong str =
     (if str = [] then Inl (Error ''empty string'')
      else if list_all isDigit str
      then Inr (foldl (\<lambda>acc c. acc * 10 + of_nat (of_char c - 48)) 0 str)
      else Inl (Error ''not a decimal numeral''))"

definition asset :: "string \<Rightarrow> string \<Rightarrow> string \<Rightarrow> rat \<Rightarrow> PoolAsset" where
  "asset s d f p =
     \<lparr>symbol = s, denom = d, fees = f, liquidity = Number 1000000, price = Number p\<rparr>"

text \<open>
  A feed with two pools for the pair ATOM and OSMO, written with different letter case,
  and with FOO, BAR and QUX joined only through OSMO; and the feed of the one pool in
  which ATOM is quoted at 10 and OSMO at 1.
\<close>

definition poolsExample :: "PoolEntry list" where
  "poolsExample =
     [(''1'', (asset ''ATOM'' ''uatom'' ''0.2%'' 10, asset ''OSMO'' ''uosmo'' ''0.2%'' 1)),
      (''2'', (asset ''osmo'' ''uosmo'' ''0.3%'' 1, asset ''Atom'' ''uatom'' ''0.3%'' 11)),
      (''3'', (asset ''FOO'' ''ufoo'' ''0.2%'' 1, asset ''OSMO'' ''uosmo'' ''0.2%'' 3)),
      (''4'', (asset ''OSMO'' ''uosmo'' ''0.2%'' 3, asset ''BAR'' ''ubar'' ''0.2%'' 1)),
      (''5'', (asset ''OSMO'' ''uosmo'' ''0.2%'' 3, asset ''QUX'' ''uqux'' ''0.2%'' 6))]"

text \<open>The same feed with other fees.\<close>

definition poolsOtherFees :: "PoolEntry list" where
  "poolsOtherFees =
     map (\<lambda>(i, (x, y)). (i, (x\<lparr>fees := ''0.5%''\<rparr>, y\<lparr>fees := ''0.1%''\<rparr>))) poolsExample"

definition poolsScenario :: "PoolEntry list" where
  "poolsScenario =
     [(''1'', (asset ''ATOM'' ''uatom'' ''0.2%'' 10, asset ''OSMO'' ''uosmo'' ''0.2%'' 1))]"




section \<open>Properties\<close>

subsection \<open>Pool lookup\<close>

lemma getPoolPricesPairs_find:
  "getPoolPricesPairs ps a b =
     (case List.find (pairMatches a b) ps of None \<Rightarrow> Inl (Error ''no-match'') | Some p \<Rightarrow> Inr p)"
proof -
  have "(\<lambda>(_, (assetA, assetB)).
              let assetA' = toLowerCase (symbol assetA);
                  assetB' = toLowerCase (symbol assetB)
              in (assetA' = toLowerCase a \<and> assetB' = toLowerCase b) \<or> (assetA' = toLowerCase b \<and> assetB' = toLowerCase a)) = pairMatches a b"
    by (auto simp: pairMatches_def fun_eq_iff)
  then show ?thesis
    by (simp add: getPoolPricesPairs_def)
qed

lemma find_first_split:
  "List.find P xs = Some x \<longleftrightarrow> (\<exists>pre post. xs = pre @ x # post \<and> P x \<and> (\<forall>q\<in>set pre. \<not> P q))"
proof (induction xs)
  case Nil
  then show ?case by simp
next
  case (Cons y ys)
  show ?case
  proof (cases "P y")
    case True
    have "(\<exists>pre post. y # ys = pre @ x # post \<and> P x \<and> (\<forall>q\<in>set pre. \<not> P q)) \<longleftrightarrow> x = y"
    proof
      assume "\<exists>pre post. y # ys = pre @ x # post \<and> P x \<and> (\<forall>q\<in>set pre. \<not> P q)"
      then obtain pre post where *: "y # ys = pre @ x # post" "\<forall>q\<in>set pre. \<not> P q" by blast
      show "x = y"
      proof (cases pre)
        case Nil
        with * show ?thesis by simp
      next
        case (Cons z zs)
        with * True show ?thesis by auto
      qed
    next
      assume "x = y"
      with True have "y # ys = [] @ x # ys \<and> P x \<and> (\<forall>q\<in>set []. \<not> P q)" by simp
      then show "\<exists>pre post. y # ys = pre @ x # post \<and> P x \<and> (\<forall>q\<in>set pre. \<not> P q)" by blast
    qed
    with True show ?thesis by auto
  next
    case False
    have "(\<exists>pre post. y # ys = pre @ x # post \<and> P x \<and> (\<forall>q\<in>set pre. \<not> P q)) \<longleftrightarrow>
          (\<exists>pre post. ys = pre @ x # post \<and> P x \<and> (\<forall>q\<in>set pre. \<not> P q))"
    proof
      assume "\<exists>pre post. y # ys = pre @ x # post \<and> P x \<and> (\<forall>q\<in>set pre. \<not> P q)"
      then obtain pre post where *: "y # ys = pre @ x # post" "P x" "\<forall>q\<in>set pre. \<not> P q" by blast
      show "\<exists>pre post. ys = pre @ x # post \<and> P x \<and> (\<forall>q\<in>set pre. \<not> P q)"
      proof (cases pre)
        case Nil
        with * False show ?thesis by simp
      next
        case (Cons z zs)
        with * have "ys = zs @ x # post \<and> P x \<and> (\<forall>q\<in>set zs. \<not> P q)" by simp
        then show ?thesis by blast
      qed
    next
      assume "\<exists>pre post. ys = pre @ x # post \<and> P x \<and> (\<forall>q\<in>set pre. \<not> P q)"
      then obtain pre post where *: "ys = pre @ x # post" "P x" "\<forall>q\<in>set pre. \<not> P q" by blast
      with False have "y # ys = (y # pre) @ x # post \<and> P x \<and> (\<forall>q\<in>set (y # pre). \<not> P q)" by simp
      then show "\<exists>pre post. y # ys = pre @ x # post \<and> P x \<and> (\<forall>q\<in>set pre. \<not> P q)" by blast
    qed
    with False Cons.IH show ?thesis by simp
  qed
qed



lemma getPoolPricesPairs_Inr_iff:
  "getPoolPricesPairs ps a b = Inr p \<longleftrightarrow>
     (\<exists>pre post. ps = pre @ p # post \<and> pairMatches a b p \<and> (\<forall>q\<in>set pre. \<not> pairMatches a b q))"
proof -
  have "getPoolPricesPairs ps a b = Inr p \<longleftrightarrow> List.find (pairMatches a b) ps = Some p"
    by (simp add: getPoolPricesPairs_find split: option.splits)
  then show ?thesis
    by (simp only: find_first_split)
qed

lemma getPoolPricesPairs_Inl_iff:
  "getPoolPricesPairs ps a b = Inl e \<longleftrightarrow>
     e = Error ''no-match'' \<and> (\<forall>q\<in>set ps. \<not> pairMatches a b q)"
proof -
  have "getPoolPricesPairs ps a b = Inl e \<longleftrightarrow>
          e = Error ''no-match'' \<and> List.find (pairMatches a b) ps = None"
    by (auto simp: getPoolPricesPairs_find split: option.splits)
  then show ?thesis
    by (auto simp: find_None_iff)
qed

lemma getPoolPricesPairs_InrD:
  "getPoolPricesPairs ps a b = Inr p \<Longrightarrow> p \<in> set ps \<and> pairMatches a b p"
  by (auto simp: getPoolPricesPairs_Inr_iff)


subsection \<open>Routes\<close>


lemma getSwapRoute_fallback:
  assumes "getPoolPricesPairs ps a b = Inl e"
  shows "getSwapRoute fromString ps a b =
          (case getPoolPricesPairs ps a ''OSMO'' of
             Inl err \<Rightarrow> Inl err
           | Inr (poolIdA, (assetA, assetB)) \<Rightarrow>
          (case getPoolPricesPairs ps ''OSMO'' b of
             Inl err \<Rightarrow> Inl err
           | Inr (poolIdB, (assetC, assetD)) \<Rightarrow>
             (case fromString poolIdA of
                   Inl err \<Rightarrow> Inl err
                 | Inr la \<Rightarrow>
                (case fromString poolIdB of
                   Inl err \<Rightarrow> Inl err
                 | Inr lb \<Rightarrow>
                     Inr [\<lparr>poolId = la, tokenOutDenom = denom (if toLowerCase a = toLowerCase (symbol assetA)
                     then assetB else assetA)\<rparr>,
                          \<lparr>poolId = lb, tokenOutDenom = denom (if ''osmo'' = toLowerCase (symbol assetC) then assetD else assetC)\<rparr>]))))"
  using assms by (simp add: getSwapRoute_def Let_def split: sum.splits prod.splits)

lemma lower_OSMO: "toLowerCase ''OSMO'' = ''osmo''"
  by code_simp

text \<open>The side of a matching pool that the route leaves through.\<close>

lemma other_side:
  assumes "pairMatches a b (i, (x, y))"
  shows "toLowerCase (symbol (if toLowerCase a = toLowerCase (symbol x) then y else x)) = toLowerCase b"
  using assms by (auto simp: pairMatches_def)


lemma bridge_side:
  assumes "pairMatches ''OSMO'' b (i, (c, d))"
  shows "toLowerCase (symbol (if ''osmo'' = toLowerCase (symbol c) then d else c)) = toLowerCase b"
  using assms by (auto simp: pairMatches_def lower_OSMO)

text \<open>
  C8. Where \<open>Long.fromString\<close> reads every pool id of the list, the pair has no pool and
  both legs through OSMO have one: the route has exactly two hops; the first leaves in the
  denom of the OSMO side of the \<open>from\<close>-OSMO pool entry, the second in the denom of the side
  of the OSMO-\<open>to\<close> pool entry for the target symbol.
\<close>

theorem bridged_route_two_hops:
  assumes ids: "\<forall>p\<in>set ps. \<exists>l. fromString (fst p) = Inr l"
    and direct: "getPoolPricesPairs ps a b = Inl e"
    and legA: "getPoolPricesPairs ps a ''OSMO'' = Inr pa"
    and legB: "getPoolPricesPairs ps ''OSMO'' b = Inr pb"
  shows "\<exists>la lb x t.
           fromString (fst pa) = Inr la \<and> fromString (fst pb) = Inr lb \<and>
           x \<in> set (assetsOf pa) \<and> toLowerCase (symbol x) = ''osmo'' \<and>
           t \<in> set (assetsOf pb) \<and> toLowerCase (symbol t) = toLowerCase b \<and>
           getSwapRoute fromString ps a b =
             Inr [\<lparr>poolId = la, tokenOutDenom = denom x\<rparr>,
                  \<lparr>poolId = lb, tokenOutDenom = denom t\<rparr>]"
proof -
  obtain ia x y where pa: "pa = (ia, (x, y))" by (cases pa) auto
  obtain ib c d where pb: "pb = (ib, (c, d))" by (cases pb) auto
  from legA legB have mem: "pa \<in> set ps" "pb \<in> set ps"
    and ma: "pairMatches a ''OSMO'' pa" and mb: "pairMatches ''OSMO'' b pb"
    by (auto dest: getPoolPricesPairs_InrD)
  from ids mem pa pb obtain la lb where l: "fromString ia = Inr la" "fromString ib = Inr lb"
    by fastforce
  define xToken where "xToken = (if toLowerCase a = toLowerCase (symbol x) then y else x)"
  define targetToken where "targetToken = (if ''osmo'' = toLowerCase (symbol c) then d else c)"
  have 1: "toLowerCase (symbol xToken) = ''osmo''"
    using other_side [OF ma [unfolded pa]] by (simp add: lower_OSMO xToken_def)
  have 2: "toLowerCase (symbol targetToken) = toLowerCase b"
    using bridge_side [OF mb [unfolded pb]] by (simp add: targetToken_def)
  have 3: "xToken \<in> set (assetsOf pa)" "targetToken \<in> set (assetsOf pb)"
    by (simp_all add: assetsOf_def pa pb xToken_def targetToken_def)
  have 4: "getSwapRoute fromString ps a b =
             Inr [\<lparr>poolId = la, tokenOutDenom = denom xToken\<rparr>,
                  \<lparr>poolId = lb, tokenOutDenom = denom targetToken\<rparr>]"
    using direct legA legB l by (simp add: getSwapRoute_fallback pa pb xToken_def targetToken_def)
  have 5: "fromString (fst pa) = Inr la" "fromString (fst pb) = Inr lb"
    using l by (simp_all add: pa pb)
  from 1 2 3 4 5 show ?thesis by blast
qed

subsection \<open>The price table\<close>





subsection \<open>The bridge symbol\<close>

lemma getSwapRouteT_result:
  "snd (getSwapRouteT fromString ps a b) = getSwapRoute fromString ps a b"
  by (simp add: getSwapRouteT_def getSwapRoute_def Let_def split: sum.splits prod.splits)

lemma getTokenToTokenPriceT_result:
  "snd (getTokenToTokenPriceT ps a b x) = getTokenToTokenPrice ps a b x"
proof (induction ps a b x rule: getTokenToTokenPrice.induct)
  case (1 ps a b x)
  note unfold = getTokenToTokenPrice.simps [of ps a b x] getTokenToTokenPriceT.simps [of ps a b x]
  show ?case
  proof (cases "getPoolPricesPairs ps a b")
    case (Inr p)
    then show ?thesis
      by (simp add: unfold split: prod.splits)
  next
    case (Inl err)
    show ?thesis
    proof (cases "message err = ''no-match'' \<and> a \<noteq> ''OSMO'' \<and> b \<noteq> ''OSMO''")
      case False
      with Inl show ?thesis by (auto simp: unfold)
    next
      case True
      note ih1 = "1.IH"(1) [OF Inl True]
      show ?thesis
      proof (cases "getTokenToTokenPrice ps a ''OSMO'' x")
        case e: (Inl e)
        with ih1 Inl True show ?thesis
          by (cases "getTokenToTokenPriceT ps a ''OSMO'' x") (simp add: unfold)
      next
        case v: (Inr valueA)
        note ih2 = "1.IH"(2) [OF Inl True v]
        from ih1 ih2 v Inl True show ?thesis
          by (cases "getTokenToTokenPriceT ps a ''OSMO'' x";
              cases "getTokenToTokenPriceT ps ''OSMO'' b (toNumber valueA)")
             (simp add: unfold)
      qed
    qed
  qed
qed

lemma quote_direct:
  assumes "getPoolPricesPairs ps a b = Inr (i, (x, y))"
  shows "getTokenToTokenPrice ps a b n =
           Inr (multipliedBy
                  (div_BN (ofNumber (price (if toLowerCase a = toLowerCase (symbol x) then x else y)))
                          (ofNumber (price (if toLowerCase a = toLowerCase (symbol x) then y else x))))
                  (ofNumber n))"
  using assms by (simp add: getTokenToTokenPrice.simps [of ps a b n])

lemma quote_no_fallback:
  assumes "getPoolPricesPairs ps a b = Inl e" "a = ''OSMO'' \<or> b = ''OSMO''"
  shows "getTokenToTokenPrice ps a b n = Inl (Error ''Error: no-match'')"
proof -
  from assms(1) have "e = Error ''no-match''" by (simp add: getPoolPricesPairs_Inl_iff)
  with assms show ?thesis by (auto simp: getTokenToTokenPrice.simps [of ps a b n])
qed

lemma quote_bridged:
  assumes "getPoolPricesPairs ps a b = Inl e" "a \<noteq> ''OSMO''" "b \<noteq> ''OSMO''"
  shows "getTokenToTokenPrice ps a b n =
           (case getTokenToTokenPrice ps a ''OSMO'' n of
              Inl e' \<Rightarrow> Inl e'
            | Inr valueA \<Rightarrow> getTokenToTokenPrice ps ''OSMO'' b (toNumber valueA))"
proof -
  from assms(1) have "e = Error ''no-match''" by (simp add: getPoolPricesPairs_Inl_iff)
  with assms show ?thesis by (simp add: getTokenToTokenPrice.simps [of ps a b n])
qed

text \<open>
  C5, as the code has it. When the \<open>from\<close> symbol or the \<open>to\<close> symbol is \<open>OSMO\<close>:
  \<open>getTokenToTokenPrice\<close> looks up the pair and nothing else; if the pair has no pool,
  \<open>getTokenToTokenPrice\<close> throws \<open>Error: no-match\<close> and \<open>getSwapRoute\<close> throws
  \<open>no-match\<close>; and a route that \<open>getSwapRoute\<close> returns has one hop. What
  \<open>getSwapRoute\<close> looks up on the way is not part of this statement: it has no special
  case for \<open>OSMO\<close>.
\<close>

theorem bridge_symbol_no_fallback_result:
  assumes "a = ''OSMO'' \<or> b = ''OSMO''"
  shows "fst (getTokenToTokenPriceT ps a b n) = [(a, b)] \<and>
         (\<forall>e. getPoolPricesPairs ps a b = Inl e \<longrightarrow>
            getTokenToTokenPrice ps a b n = Inl (Error ''Error: no-match'') \<and>
            getSwapRoute fromString ps a b = Inl (Error ''no-match'')) \<and>
         (\<forall>r. getSwapRoute fromString ps a b = Inr r \<longrightarrow> length r = 1)"
proof (intro conjI allI impI)
  show "fst (getTokenToTokenPriceT ps a b n) = [(a, b)]"
    using assms by (auto simp: getTokenToTokenPriceT.simps [of ps a b n] split: sum.splits prod.splits)
next
  fix e assume e: "getPoolPricesPairs ps a b = Inl e"
  then have nm: "e = Error ''no-match''" by (simp add: getPoolPricesPairs_Inl_iff)
  show "getTokenToTokenPrice ps a b n = Inl (Error ''Error: no-match'')"
    using e assms by (rule quote_no_fallback)
  from assms show "getSwapRoute fromString ps a b = Inl (Error ''no-match'')"
  proof
    assume "a = ''OSMO''"
    with e nm show ?thesis
      by (simp add: getSwapRoute_fallback split: sum.splits prod.splits)
         (auto simp: getPoolPricesPairs_Inl_iff)
  next
    assume "b = ''OSMO''"
    with e nm show ?thesis
      by (simp add: getSwapRoute_fallback split: sum.splits prod.splits)
  qed
next
  fix r assume r: "getSwapRoute fromString ps a b = Inr r"
  from assms show "length r = 1"
  proof
    assume "a = ''OSMO''"
    with r show ?thesis
      by (auto simp: getSwapRoute_def Let_def split: sum.splits prod.splits)
  next
    assume "b = ''OSMO''"
    with r show ?thesis
      by (auto simp: getSwapRoute_def Let_def split: sum.splits prod.splits)
  qed
qed

subsection \<open>Evaluating numbers and the examples\<close>

text \<open>Rules that compute the functions on numbers at numerals.\<close>

lemma floor_rat_numeral [simp]:
  "\<lfloor>numeral a / numeral b :: rat\<rfloor> = numeral a div numeral b"
  "\<lfloor>1 / numeral b :: rat\<rfloor> = 1 div numeral b"
  "\<lfloor>- (numeral a / numeral b) :: rat\<rfloor> = - numeral a div numeral b"
  "\<lfloor>- (1 / numeral b) :: rat\<rfloor> = - 1 div numeral b"
proof -
  show "\<lfloor>numeral a / numeral b :: rat\<rfloor> = numeral a div numeral b"
    by (metis floor_divide_of_int_eq of_int_numeral)
  show "\<lfloor>1 / numeral b :: rat\<rfloor> = 1 div numeral b"
    by (metis floor_divide_of_int_eq of_int_numeral of_int_1)
  show "\<lfloor>- (numeral a / numeral b) :: rat\<rfloor> = - numeral a div numeral b"
    by (metis divide_minus_left floor_divide_of_int_eq of_int_neg_numeral of_int_numeral)
  show "\<lfloor>- (1 / numeral b) :: rat\<rfloor> = - 1 div numeral b"
    by (metis divide_minus_left floor_divide_of_int_eq of_int_numeral of_int_minus of_int_1)
qed

lemma ceiling_rat_numeral [simp]:
  "\<lceil>numeral a / numeral b :: rat\<rceil> = - (- numeral a div numeral b)"
  "\<lceil>1 / numeral b :: rat\<rceil> = - (- 1 div numeral b)"
  by (simp_all add: ceiling_def)

lemma bitlen_numeral [simp]:
  "bitlen 1 = 1"
  "bitlen (numeral Num.One) = 1"
  "bitlen (numeral (Num.Bit0 k)) = bitlen (numeral k) + 1"
  "bitlen (numeral (Num.Bit1 k)) = bitlen (numeral k) + 1"
proof -
  show "bitlen 1 = 1" by (subst compute_bitlen) simp
  then show "bitlen (numeral Num.One) = 1" by simp
  show "bitlen (numeral (Num.Bit0 k)) = bitlen (numeral k) + 1"
    by (subst compute_bitlen) simp
  have "(numeral (Num.Bit1 k) :: int) div 2 = numeral k"
    by simp
  then show "bitlen (numeral (Num.Bit1 k)) = bitlen (numeral k) + 1"
    by (subst compute_bitlen) simp
qed

lemma declen_numeral [simp]:
  "declen 0 = 0"
  "declen 1 = 1"
  "declen (numeral k) = declen (numeral k div 10) + 1"
proof -
  show "declen 0 = 0" by simp
  show "declen 1 = 1" by simp
  show "declen (numeral k) = declen (numeral k div 10) + 1"
    by (subst declen.simps) simp
qed

declare declen.simps [simp del]

lemma shortest_numeral:
  "shortest (numeral k) d =
     (case withDigits d (17 - int (pred_numeral k)) of
        Some v \<Rightarrow> v | None \<Rightarrow> shortest (pred_numeral k) d)"
  by (simp add: numeral_eq_Suc)

declare ofNumber.simps [simp del] toNumber.simps [simp del]

lemmas num_eval = ofNumber.simps toNumber.simps toDouble_def signed_def onGrid_def ulpOf_def
  binaryExponent_def roundHalfEven_def nearestEven_def expt_def decimalExponent_def
  shortest_numeral withDigits_def withUnit_def between_def pick_def

lemma ofNumber_eval:
  "ofNumber (Number 1) = Finite 1"
  "ofNumber (Number 3) = Finite 3"
  "ofNumber (Number 10) = Finite 10"
  "ofNumber (Number 6) = Finite 6"
  "ofNumber (Number 11) = Finite 11"
  by (simp_all add: num_eval)

lemma lower_eval:
  "toLowerCase ''ATOM'' = ''atom''"
  "toLowerCase ''Atom'' = ''atom''"
  "toLowerCase ''atom'' = ''atom''"
  "toLowerCase ''OSMO'' = ''osmo''"
  "toLowerCase ''osmo'' = ''osmo''"
  "toLowerCase ''FOO'' = ''foo''"
  "toLowerCase ''BAR'' = ''bar''"
  "toLowerCase ''BAZ'' = ''baz''"
  "toLowerCase ''QUX'' = ''qux''"
proof -
  show "toLowerCase ''ATOM'' = ''atom''" by code_simp
  show "toLowerCase ''Atom'' = ''atom''" by code_simp
  show "toLowerCase ''atom'' = ''atom''" by code_simp
  show "toLowerCase ''OSMO'' = ''osmo''" by code_simp
  show "toLowerCase ''osmo'' = ''osmo''" by code_simp
  show "toLowerCase ''FOO'' = ''foo''" by code_simp
  show "toLowerCase ''BAR'' = ''bar''" by code_simp
  show "toLowerCase ''BAZ'' = ''baz''" by code_simp
  show "toLowerCase ''QUX'' = ''qux''" by code_simp
qed

lemma scenario_lookup:
  "getPoolPricesPairs poolsScenario ''ATOM'' ''OSMO'' =
     Inr (''1'', (asset ''ATOM'' ''uatom'' ''0.2%'' 10, asset ''OSMO'' ''uosmo'' ''0.2%'' 1))"
  by (simp add: getPoolPricesPairs_def poolsScenario_def asset_def lower_eval)

subsection \<open>Quotes\<close>

lemma quote_single_leg:
  assumes "a = ''OSMO'' \<or> b = ''OSMO''"
  shows "getTokenToTokenPrice ps a b n = Inr w \<longleftrightarrow> directQuote ps a b (ofNumber n) = Some w"
proof (cases "getPoolPricesPairs ps a b")
  case (Inl e)
  with assms show ?thesis
    by (simp add: quote_no_fallback directQuote_def)
next
  case (Inr p)
  obtain i x y where "p = (i, (x, y))" by (cases p) auto
  with Inr show ?thesis
    by (simp add: quote_direct directQuote_def)
qed

text \<open>
  C3, as the code has it. A bridged quote passes the result of its first leg through
  \<open>toNumber()\<close>: it is the quote of the second leg for the double nearest to that
  result. Where that result reads back from the double unchanged, the bridged quote is
  the one the specification words on decimals.
\<close>

theorem bridged_quote_through_number:
  assumes direct: "getPoolPricesPairs ps a b = Inl e"
    and ab: "a \<noteq> ''OSMO''" "b \<noteq> ''OSMO''"
    and first: "getTokenToTokenPrice ps a ''OSMO'' n = Inr valueA"
  shows "getTokenToTokenPrice ps a b n =
           getTokenToTokenPrice ps ''OSMO'' b (toNumber valueA) \<and>
         (ofNumber (toNumber valueA) = valueA \<longrightarrow>
            (\<forall>w. getTokenToTokenPrice ps a b n = Inr w \<longleftrightarrow>
                 quoteSpec ps a b (ofNumber n) = Some w))"
proof (intro conjI impI allI)
  show bridged: "getTokenToTokenPrice ps a b n =
           getTokenToTokenPrice ps ''OSMO'' b (toNumber valueA)"
    using direct ab first by (simp add: quote_bridged)
  fix w
  assume rt: "ofNumber (toNumber valueA) = valueA"
  have legA: "directQuote ps a ''OSMO'' (ofNumber n) = Some valueA"
    using first by (simp add: quote_single_leg)
  have none: "directQuote ps a b (ofNumber n) = None"
    using direct by (simp add: directQuote_def)
  have "getTokenToTokenPrice ps ''OSMO'' b (toNumber valueA) = Inr w \<longleftrightarrow>
          directQuote ps ''OSMO'' b valueA = Some w"
    using rt by (simp add: quote_single_leg)
  also have "\<dots> \<longleftrightarrow> quoteSpec ps a b (ofNumber n) = Some w"
    using ab by (simp add: quoteSpec_def none legA)
  finally show "getTokenToTokenPrice ps a b n = Inr w \<longleftrightarrow>
                 quoteSpec ps a b (ofNumber n) = Some w"
    by (simp only: bridged)
qed

lemma roundDP_exact:
  assumes "x * 10 ^ dp \<in> \<int>"
  shows "roundDP dp x = x"
proof -
  from assms obtain k :: int where k: "x * 10 ^ dp = of_int k"
    by (auto elim: Ints_cases)
  have "\<lfloor>(of_int k :: rat) + 1 / 2\<rfloor> = k" "\<lfloor>- (of_int k :: rat) + 1 / 2\<rfloor> = - k"
    by (rule floor_unique; simp)+
  then have "roundHalfUp (of_int k) = k"
    by (simp add: roundHalfUp_def)
  with k have "roundDP dp x = of_int k / 10 ^ dp"
    by (simp add: roundDP_def)
  also have "\<dots> = x"
    using k [symmetric] by simp
  finally show ?thesis .
qed

text \<open>
  C7, as the code has it. With a pool for the pair, the quote is the amount times the
  quotient of the price of the pool's side for the \<open>from\<close> symbol by the price of its side
  for the \<open>to\<close> symbol, as \<open>div\<close> gives it: for finite prices and amount and a \<open>to\<close>
  price that is not zero, the amount times the quotient rounded (half up) to 20 decimal
  places, which is the amount times the quotient itself when the quotient has at most 20
  decimal places. In the feed of the one pool of ATOM at 10 and OSMO at 1, the quote of
  1 ATOM in OSMO is 10.
\<close>

theorem direct_quote_ratio:
  "(\<forall>p. getPoolPricesPairs ps a b = Inr p \<longrightarrow>
      (\<exists>f t. (f, t) \<in> {(fst (snd p), snd (snd p)), (snd (snd p), fst (snd p))} \<and>
         toLowerCase (symbol f) = toLowerCase a \<and> toLowerCase (symbol t) = toLowerCase b \<and>
         getTokenToTokenPrice ps a b n =
           Inr (multipliedBy (div_BN (ofNumber (price f)) (ofNumber (price t))) (ofNumber n)) \<and>
         (\<forall>pf pt x. ofNumber (price f) = Finite pf \<and> ofNumber (price t) = Finite pt \<and>
              pt \<noteq> 0 \<and> ofNumber n = Finite x \<longrightarrow>
            getTokenToTokenPrice ps a b n = Inr (Finite (roundDP 20 (pf / pt) * x)) \<and>
            (pf / pt * 10 ^ 20 \<in> \<int> \<longrightarrow>
               getTokenToTokenPrice ps a b n = Inr (Finite (x * (pf / pt))))))) \<and>
   getTokenToTokenPrice poolsScenario ''ATOM'' ''OSMO'' (Number 1) = Inr (Finite 10)"
proof (intro conjI allI impI)
  fix p assume p: "getPoolPricesPairs ps a b = Inr p"
  obtain i x y where pe: "p = (i, (x, y))" by (cases p) auto
  define f where "f = (if toLowerCase a = toLowerCase (symbol x) then x else y)"
  define t where "t = (if toLowerCase a = toLowerCase (symbol x) then y else x)"
  from p have m: "pairMatches a b (i, (x, y))"
    by (auto simp: pe dest: getPoolPricesPairs_InrD)
  have q: "getTokenToTokenPrice ps a b n =
           Inr (multipliedBy (div_BN (ofNumber (price f)) (ofNumber (price t))) (ofNumber n))"
    using p unfolding pe f_def t_def by (rule quote_direct)
  have 1: "(f, t) \<in> {(fst (snd p), snd (snd p)), (snd (snd p), fst (snd p))}"
    by (simp add: f_def t_def pe)
  have 2: "toLowerCase (symbol f) = toLowerCase a"
    using m by (auto simp: f_def pairMatches_def)
  have 3: "toLowerCase (symbol t) = toLowerCase b"
    using other_side [OF m] by (simp add: t_def)
  have 4: "getTokenToTokenPrice ps a b n = Inr (Finite (roundDP 20 (pf / pt) * v)) \<and>
            (pf / pt * 10 ^ 20 \<in> \<int> \<longrightarrow>
               getTokenToTokenPrice ps a b n = Inr (Finite (v * (pf / pt))))"
    if "ofNumber (price f) = Finite pf \<and> ofNumber (price t) = Finite pt \<and>
              pt \<noteq> 0 \<and> ofNumber n = Finite v" for pf pt v
    using that q by (auto simp: roundDP_exact)
  from 1 2 3 4 q
  show "\<exists>f t. (f, t) \<in> {(fst (snd p), snd (snd p)), (snd (snd p), fst (snd p))} \<and>
         toLowerCase (symbol f) = toLowerCase a \<and> toLowerCase (symbol t) = toLowerCase b \<and>
         getTokenToTokenPrice ps a b n =
           Inr (multipliedBy (div_BN (ofNumber (price f)) (ofNumber (price t))) (ofNumber n)) \<and>
         (\<forall>pf pt x. ofNumber (price f) = Finite pf \<and> ofNumber (price t) = Finite pt \<and>
              pt \<noteq> 0 \<and> ofNumber n = Finite x \<longrightarrow>
            getTokenToTokenPrice ps a b n = Inr (Finite (roundDP 20 (pf / pt) * x)) \<and>
            (pf / pt * 10 ^ 20 \<in> \<int> \<longrightarrow>
               getTokenToTokenPrice ps a b n = Inr (Finite (x * (pf / pt)))))"
    by blast
next
  show "getTokenToTokenPrice poolsScenario ''ATOM'' ''OSMO'' (Number 1) = Inr (Finite 10)"
    by (simp add: quote_direct [OF scenario_lookup] asset_def lower_eval ofNumber_eval roundDP_exact)
qed

subsection \<open>Fees\<close>

lemma sameButFees_fields:
  assumes "sameButFees (i, (x, y)) (j, (c, d))"
  shows "i = j" "symbol x = symbol c" "symbol y = symbol d" "price x = price c"
    "price y = price d"
proof -
  from assms have x: "x\<lparr>fees := []\<rparr> = c\<lparr>fees := []\<rparr>" and y: "y\<lparr>fees := []\<rparr> = d\<lparr>fees := []\<rparr>"
    and i: "i = j"
    by (simp_all add: sameButFees_def)
  show "i = j" by (rule i)
  from x show "symbol x = symbol c" "price x = price c"
    by (cases x; cases c; simp)+
  from y show "symbol y = symbol d" "price y = price d"
    by (cases y; cases d; simp)+
qed

lemma sameButFees_matches:
  assumes "sameButFees p q"
  shows "pairMatches a b p = pairMatches a b q"
proof -
  obtain i x y where p: "p = (i, (x, y))" by (cases p) auto
  obtain j c d where q: "q = (j, (c, d))" by (cases q) auto
  from sameButFees_fields [OF assms [unfolded p q]] show ?thesis
    by (simp add: pairMatches_def p q)
qed

lemma find_sameButFees:
  assumes "list_all2 sameButFees ps qs"
  shows "rel_option sameButFees (List.find (pairMatches a b) ps) (List.find (pairMatches a b) qs)"
  using assms
proof (induction rule: list_all2_induct)
  case Nil
  then show ?case by simp
next
  case (Cons p ps q qs)
  then show ?case
    by (simp add: sameButFees_matches [of p q])
qed

lemma lookup_sameButFees:
  assumes "list_all2 sameButFees ps qs"
  obtains (none) e where "getPoolPricesPairs ps a b = Inl e" "getPoolPricesPairs qs a b = Inl e"
  | (some) p q where "getPoolPricesPairs ps a b = Inr p" "getPoolPricesPairs qs a b = Inr q"
      "sameButFees p q"
  using find_sameButFees [OF assms, of a b]
  by (cases rule: option.rel_cases) (simp_all add: getPoolPricesPairs_find)

lemma quote_direct_fees:
  assumes "getPoolPricesPairs ps a b = Inr p" "getPoolPricesPairs qs a b = Inr q"
    "sameButFees p q"
  shows "getTokenToTokenPrice ps a b n = getTokenToTokenPrice qs a b n"
proof -
  obtain i x y where p: "p = (i, (x, y))" by (cases p) auto
  obtain j c d where q: "q = (j, (c, d))" by (cases q) auto
  from assms sameButFees_fields [of i x y j c d] show ?thesis
    by (simp add: quote_direct p q)
qed

lemma quote_single_leg_fees:
  assumes "list_all2 sameButFees ps qs" "a = ''OSMO'' \<or> b = ''OSMO''"
  shows "getTokenToTokenPrice ps a b n = getTokenToTokenPrice qs a b n"
  using assms(1)
proof (cases rule: lookup_sameButFees [of ps qs a b])
  case (none e)
  with assms(2) show ?thesis
    by (simp add: quote_no_fallback)
next
  case (some p q)
  then show ?thesis by (rule quote_direct_fees)
qed

text \<open>
  C10. On two pool lists that differ in nothing but the \<open>fees\<close> of their assets, every
  quote is the same: result or error.
\<close>

theorem quote_ignores_fees:
  assumes "list_all2 sameButFees ps qs"
  shows "getTokenToTokenPrice ps a b n = getTokenToTokenPrice qs a b n"
  using assms
proof (cases rule: lookup_sameButFees [of ps qs a b])
  case (some p q)
  then show ?thesis by (rule quote_direct_fees)
next
  case (none e)
  show ?thesis
  proof (cases "a = ''OSMO'' \<or> b = ''OSMO''")
    case True
    with assms show ?thesis by (rule quote_single_leg_fees)
  next
    case False
    then have ab: "a \<noteq> ''OSMO''" "b \<noteq> ''OSMO''" by simp_all
    have 1: "getTokenToTokenPrice ps a ''OSMO'' n = getTokenToTokenPrice qs a ''OSMO'' n"
      using assms by (rule quote_single_leg_fees) simp
    have 2: "getTokenToTokenPrice ps ''OSMO'' b m = getTokenToTokenPrice qs ''OSMO'' b m" for m
      using assms by (rule quote_single_leg_fees) simp
    from none ab show ?thesis
      by (simp add: quote_bridged 1 2 cong: sum.case_cong)
  qed
qed

subsection \<open>Amounts\<close>














section \<open>The properties on the examples\<close>

lemmas lookup_eval = getPoolPricesPairs_def poolsExample_def asset_def lower_eval

lemma example_lookups:
  "getPoolPricesPairs poolsExample ''ATOM'' ''OSMO'' =
     Inr (''1'', (asset ''ATOM'' ''uatom'' ''0.2%'' 10, asset ''OSMO'' ''uosmo'' ''0.2%'' 1))"
  "getPoolPricesPairs poolsExample ''atom'' ''OSMO'' =
     Inr (''1'', (asset ''ATOM'' ''uatom'' ''0.2%'' 10, asset ''OSMO'' ''uosmo'' ''0.2%'' 1))"
  "getPoolPricesPairs poolsExample ''FOO'' ''OSMO'' =
     Inr (''3'', (asset ''FOO'' ''ufoo'' ''0.2%'' 1, asset ''OSMO'' ''uosmo'' ''0.2%'' 3))"
  "getPoolPricesPairs poolsExample ''OSMO'' ''BAR'' =
     Inr (''4'', (asset ''OSMO'' ''uosmo'' ''0.2%'' 3, asset ''BAR'' ''ubar'' ''0.2%'' 1))"
  "getPoolPricesPairs poolsExample ''QUX'' ''OSMO'' =
     Inr (''5'', (asset ''OSMO'' ''uosmo'' ''0.2%'' 3, asset ''QUX'' ''uqux'' ''0.2%'' 6))"
  "getPoolPricesPairs poolsExample ''FOO'' ''BAR'' = Inl (Error ''no-match'')"
  "getPoolPricesPairs poolsExample ''QUX'' ''BAR'' = Inl (Error ''no-match'')"
  "getPoolPricesPairs poolsExample ''FOO'' ''BAZ'' = Inl (Error ''no-match'')"
  "getPoolPricesPairs poolsExample ''OSMO'' ''BAZ'' = Inl (Error ''no-match'')"
  "getPoolPricesPairs poolsExample ''OSMO'' ''OSMO'' = Inl (Error ''no-match'')"
  by (simp_all add: lookup_eval)

lemma decimalLong_eval:
  "decimalLong ''1'' = Inr 1" "decimalLong ''2'' = Inr 2" "decimalLong ''3'' = Inr 3"
  "decimalLong ''4'' = Inr 4" "decimalLong ''5'' = Inr 5"
proof -
  show "decimalLong ''1'' = Inr 1" by code_simp
  show "decimalLong ''2'' = Inr 2" by code_simp
  show "decimalLong ''3'' = Inr 3" by code_simp
  show "decimalLong ''4'' = Inr 4" by code_simp
  show "decimalLong ''5'' = Inr 5" by code_simp
qed

lemma poolsExample_ids: "\<forall>p\<in>set poolsExample. \<exists>l. decimalLong (fst p) = Inr l"
  by (simp add: poolsExample_def decimalLong_eval)

lemma example_first_leg:
  "getTokenToTokenPrice poolsExample ''FOO'' ''OSMO'' (Number 3) =
     Inr (Finite (99999999999999999999 / 10 ^ 20))"
  by (simp add: quote_direct [OF example_lookups(3)] asset_def lower_eval ofNumber_eval
        roundDP_def roundHalfUp_def)

lemma example_rounded_to_one:
  "toNumber (Finite (99999999999999999999 / 10 ^ 20)) = Number 1"
  by (simp add: num_eval)

lemma example_second_leg:
  "getTokenToTokenPrice poolsExample ''OSMO'' ''BAR'' (Number 1) = Inr (Finite 3)"
  by (simp add: quote_direct [OF example_lookups(4)] asset_def lower_eval ofNumber_eval
        roundDP_def roundHalfUp_def)

lemma example_bridged_quote:
  "getTokenToTokenPrice poolsExample ''FOO'' ''BAR'' (Number 3) = Inr (Finite 3)"
  using quote_bridged [OF example_lookups(6), of "Number 3"]
  by (simp only: example_first_leg example_rounded_to_one example_second_leg sum.case)
     (simp add: )

lemma example_quoteSpec:
  "quoteSpec poolsExample ''FOO'' ''BAR'' (Finite 3) =
     Some (Finite (299999999999999999997 / 10 ^ 20))"
  by (simp add: quoteSpec_def directQuote_def example_lookups asset_def lower_eval ofNumber_eval
        roundDP_def roundHalfUp_def)



text \<open>
  C8 on the example feed: the route from FOO to BAR leaves its first hop in \<open>uosmo\<close> and
  its second in \<open>ubar\<close>.
\<close>

theorem bridged_route_two_hops_witness:
  "\<exists>la lb. getSwapRoute decimalLong poolsExample ''FOO'' ''BAR'' =
      Inr [\<lparr>poolId = la, tokenOutDenom = ''uosmo''\<rparr>, \<lparr>poolId = lb, tokenOutDenom = ''ubar''\<rparr>]"
proof -
  from bridged_route_two_hops [OF poolsExample_ids example_lookups(6) example_lookups(3)
      example_lookups(4)]
  obtain la lb x t where
    x: "x \<in> set (assetsOf (''3'', (asset ''FOO'' ''ufoo'' ''0.2%'' 1, asset ''OSMO'' ''uosmo'' ''0.2%'' 3)))"
      "toLowerCase (symbol x) = ''osmo''"
    and t: "t \<in> set (assetsOf (''4'', (asset ''OSMO'' ''uosmo'' ''0.2%'' 3, asset ''BAR'' ''ubar'' ''0.2%'' 1)))"
      "toLowerCase (symbol t) = toLowerCase ''BAR''"
    and r: "getSwapRoute decimalLong poolsExample ''FOO'' ''BAR'' =
      Inr [\<lparr>poolId = la, tokenOutDenom = denom x\<rparr>, \<lparr>poolId = lb, tokenOutDenom = denom t\<rparr>]"
    by blast
  from x have "denom x = ''uosmo''"
    by (auto simp: assetsOf_def asset_def lower_eval)
  moreover from t have "denom t = ''ubar''"
    by (auto simp: assetsOf_def asset_def lower_eval)
  ultimately show ?thesis using r by auto
qed



text \<open>
  C5 as stated fails for \<open>getSwapRoute\<close>: from OSMO to BAZ, a pair without a pool, it
  looks up the pair and then the pair of OSMO and OSMO.
\<close>

theorem route_looks_up_bridge_to_bridge:
  "fst (getSwapRouteT decimalLong poolsExample ''OSMO'' ''BAZ'') =
     [(''OSMO'', ''BAZ''), (''OSMO'', ''OSMO'')]"
  by (simp add: getSwapRouteT_def example_lookups)

text \<open>
  C5 as the code has it, from OSMO to BAZ on the example feed.
\<close>

theorem bridge_symbol_no_fallback_result_witness:
  "fst (getTokenToTokenPriceT poolsExample ''OSMO'' ''BAZ'' (Number 1)) = [(''OSMO'', ''BAZ'')] \<and>
   getTokenToTokenPrice poolsExample ''OSMO'' ''BAZ'' (Number 1) = Inl (Error ''Error: no-match'') \<and>
   getSwapRoute decimalLong poolsExample ''OSMO'' ''BAZ'' = Inl (Error ''no-match'')"
proof -
  have "''OSMO'' = ''OSMO'' \<or> ''BAZ'' = ''OSMO''" by simp
  from bridge_symbol_no_fallback_result [OF this, of poolsExample "Number 1" decimalLong]
    example_lookups(9)
  show ?thesis by blast
qed

text \<open>
  C3 as stated fails: 3 FOO are 0.99999999999999999999 OSMO; \<open>toNumber()\<close> makes that
  the double 1, so that the quote in BAR is 3 and not the 2.99999999999999999997 that the
  decimal of the first leg gives.
\<close>

theorem bridged_quote_loses_digits:
  "getTokenToTokenPrice poolsExample ''FOO'' ''OSMO'' (Number 3) =
     Inr (Finite (99999999999999999999 / 10 ^ 20)) \<and>
   toNumber (Finite (99999999999999999999 / 10 ^ 20)) = Number 1 \<and>
   getTokenToTokenPrice poolsExample ''FOO'' ''BAR'' (Number 3) = Inr (Finite 3) \<and>
   quoteSpec poolsExample ''FOO'' ''BAR'' (Finite 3) =
     Some (Finite (299999999999999999997 / 10 ^ 20))"
  using example_first_leg example_rounded_to_one example_bridged_quote example_quoteSpec
  by (intro conjI)

lemma example_exact_legs:
  "getTokenToTokenPrice poolsExample ''QUX'' ''OSMO'' (Number 1) = Inr (Finite 2)"
  "ofNumber (toNumber (Finite 2)) = Finite 2"
  "quoteSpec poolsExample ''QUX'' ''BAR'' (Finite 1) = Some (Finite 6)"
proof -
  show "getTokenToTokenPrice poolsExample ''QUX'' ''OSMO'' (Number 1) = Inr (Finite 2)"
    by (simp add: quote_direct [OF example_lookups(5)] asset_def lower_eval ofNumber_eval
        roundDP_def roundHalfUp_def)
  show "ofNumber (toNumber (Finite 2)) = Finite 2"
    by (simp add: num_eval)
  show "quoteSpec poolsExample ''QUX'' ''BAR'' (Finite 1) = Some (Finite 6)"
    by (simp add: quoteSpec_def directQuote_def example_lookups asset_def lower_eval ofNumber_eval
        roundDP_def roundHalfUp_def)
qed

text \<open>
  C3 as the code has it, from QUX to BAR on the example feed, where the first leg gives
  2, which is a double.
\<close>

theorem bridged_quote_through_number_witness:
  "getTokenToTokenPrice poolsExample ''QUX'' ''BAR'' (Number 1) = Inr (Finite 6)"
proof -
  have ne: "''QUX'' \<noteq> ''OSMO''" "''BAR'' \<noteq> ''OSMO''" by simp_all
  from bridged_quote_through_number [OF example_lookups(7) ne example_exact_legs(1)]
    example_exact_legs(2)
  have "getTokenToTokenPrice poolsExample ''QUX'' ''BAR'' (Number 1) = Inr (Finite 6) \<longleftrightarrow>
        quoteSpec poolsExample ''QUX'' ''BAR'' (ofNumber (Number 1)) = Some (Finite 6)"
    by blast
  then show ?thesis
    by (simp only: ofNumber_eval example_exact_legs(3))
qed

text \<open>
  C7 as stated fails: with FOO at 1 and OSMO at 3, the quote of 3 FOO in OSMO is
  0.99999999999999999999 and not \<open>3 * (1 / 3)\<close>.
\<close>

theorem direct_quote_rounds_ratio:
  "getTokenToTokenPrice poolsExample ''FOO'' ''OSMO'' (Number 3) =
     Inr (Finite (99999999999999999999 / 10 ^ 20)) \<and>
   getTokenToTokenPrice poolsExample ''FOO'' ''OSMO'' (Number 3) \<noteq> Inr (Finite (3 * (1 / 3)))"
  by (simp add: example_first_leg)

text \<open>
  C7 as the code has it, on the feed of the scenario: the side for ATOM is priced 10, the
  side for OSMO 1, and the quotient 10 has no decimal places.
\<close>

theorem direct_quote_ratio_witness:
  "getTokenToTokenPrice poolsScenario ''ATOM'' ''OSMO'' (Number 1) = Inr (Finite (1 * (10 / 1)))"
proof -
  let ?a = "asset ''ATOM'' ''uatom'' ''0.2%'' 10" and ?o = "asset ''OSMO'' ''uosmo'' ''0.2%'' 1"
  from direct_quote_ratio [of poolsScenario "''ATOM''" "''OSMO''" "Number 1"] scenario_lookup
  obtain f t where ft: "(f, t) \<in> {(?a, ?o), (?o, ?a)}"
    and f: "toLowerCase (symbol f) = toLowerCase ''ATOM''"
    and exact: "\<And>pf pt x. ofNumber (price f) = Finite pf \<and> ofNumber (price t) = Finite pt \<and>
              pt \<noteq> 0 \<and> ofNumber (Number 1) = Finite x \<Longrightarrow>
            pf / pt * 10 ^ 20 \<in> \<int> \<Longrightarrow>
               getTokenToTokenPrice poolsScenario ''ATOM'' ''OSMO'' (Number 1) =
                 Inr (Finite (x * (pf / pt)))"
    by fastforce
  from ft f have "f = ?a \<and> t = ?o"
    by (auto simp: asset_def lower_eval)
  then have "ofNumber (price f) = Finite 10 \<and> ofNumber (price t) = Finite 1 \<and>
              (1 :: rat) \<noteq> 0 \<and> ofNumber (Number 1) = Finite 1"
    by (simp add: asset_def ofNumber_eval)
  moreover have "(10 :: rat) / 1 * 10 ^ 20 \<in> \<int>"
    by simp
  ultimately show ?thesis
    by (rule exact)
qed

lemma otherFees_same: "list_all2 sameButFees poolsExample poolsOtherFees"
  by (simp add: poolsOtherFees_def poolsExample_def sameButFees_def asset_def)

text \<open>
  C10 on the example feed and the same feed with other fees.
\<close>

theorem quote_ignores_fees_witness:
  "getTokenToTokenPrice poolsOtherFees ''FOO'' ''BAR'' (Number 3) = Inr (Finite 3)"
  using quote_ignores_fees [OF otherFees_same, of "''FOO''" "''BAR''" "Number 3"]
    example_bridged_quote
  by simp








end
